theory Spec2Isabelle
  imports Main "HOL-Library.Sublist"
begin

section \<open>The parsed document\<close>

text \<open>
  poll.py reads the statistics reply through \<^verbatim>\<open>xml.etree.ElementTree\<close>. Of an element
  it uses the tag, the text (\<^verbatim>\<open>None\<close> when the element has none) and the ordered
  children; attributes and tails are never read.
\<close>

datatype elem = Element (tag: string) (elem_text: "string option") (children: "elem list")

text \<open>
  \<^verbatim>\<open>for elem in root.iter(): if "}" in elem.tag: elem.tag = elem.tag.split("}", 1)[1]\<close>
  rewrites every tag of the tree, the root's included, to what follows its first
  closing brace.
\<close>

definition strip_tag :: "string \<Rightarrow> string" where
  "strip_tag t = (if CHR ''}'' \<in> set t then tl (dropWhile (\<lambda>c. c \<noteq> CHR ''}'') t) else t)"

fun strip_namespaces :: "elem \<Rightarrow> elem" where
  "strip_namespaces (Element t x cs) = Element (strip_tag t) x (map strip_namespaces cs)"

text \<open>\<^verbatim>\<open>elem.iter()\<close>: the element and everything below it, in document order.\<close>

fun iter :: "elem \<Rightarrow> elem list" where
  "iter (Element t x cs) = Element t x cs # concat (map iter cs)"

text \<open>
  The path step \<^verbatim>\<open>.//name\<close>: every element below the context element (the context
  element itself is left out) whose tag is \<^verbatim>\<open>name\<close>, in document order.
\<close>

definition descendants :: "string \<Rightarrow> elem \<Rightarrow> elem list" where
  "descendants name e = filter (\<lambda>d. tag d = name) (concat (map iter (children e)))"

text \<open>The path step \<^verbatim>\<open>name\<close>: the direct children with that tag; \<^verbatim>\<open>find\<close> takes the first.\<close>

definition findall_children :: "string \<Rightarrow> elem \<Rightarrow> elem list" where
  "findall_children name e = filter (\<lambda>c. tag c = name) (children e)"

definition first_match :: "elem list \<Rightarrow> elem option" where
  "first_match ms = (case ms of [] \<Rightarrow> None | m # _ \<Rightarrow> Some m)"

definition find_child :: "string \<Rightarrow> elem \<Rightarrow> elem option" where
  "find_child name e = first_match (findall_children name e)"

text \<open>\<^verbatim>\<open>root.find(".//columns/values")\<close> and \<^verbatim>\<open>root.findall(".//rows")\<close>.\<close>

definition find_columns_values :: "elem \<Rightarrow> elem option" where
  "find_columns_values root =
     first_match (concat (map (findall_children ''values'') (descendants ''columns'' root)))"

definition findall_rows :: "elem \<Rightarrow> elem list" where
  "findall_rows root = descendants ''rows'' root"

text \<open>\<^verbatim>\<open>d.text or ""\<close>: a missing text and an empty text both give the empty string.\<close>

definition text_or_empty :: "elem \<Rightarrow> string" where
  "text_or_empty d =
     (case elem_text d of None \<Rightarrow> '''' | Some s \<Rightarrow> (if s = '''' then '''' else s))"

definition data_texts :: "elem \<Rightarrow> string list" where
  "data_texts node = map text_or_empty (findall_children ''data'' node)"

section \<open>Dictionaries\<close>

text \<open>
  \<^verbatim>\<open>dict(pairs)\<close> stores the pairs in order, a later pair replacing an earlier one with
  the same key; \<^verbatim>\<open>d.get(k, default)\<close> reads with a default and \<^verbatim>\<open>d.get(k)\<close> gives
  \<^verbatim>\<open>None\<close> for a key that is not there.
\<close>

definition dict :: "(string \<times> string) list \<Rightarrow> (string \<rightharpoonup> string)" where
  "dict kvs = foldl (\<lambda>m (k, v). m(k \<mapsto> v)) Map.empty kvs"

definition get :: "(string \<rightharpoonup> string) \<Rightarrow> string \<Rightarrow> string \<Rightarrow> string" where
  "get d k dflt = (case d k of None \<Rightarrow> dflt | Some v \<Rightarrow> v)"

section \<open>The snapshot transformer\<close>

text \<open>
  A normalized record is the dictionary literal of the loop body, kept as the ordered
  list of its key/value pairs (the JSON object the store receives).
\<close>

type_synonym snapshot_record = "(string \<times> string) list"

definition snapshot_record :: "string \<Rightarrow> (string \<rightharpoonup> string) \<Rightarrow> snapshot_record" where
  "snapshot_record snapshot_ts agent =
     [(''snapshot_ts'', snapshot_ts),
      (''username'', get agent ''Username'' ''''),
      (''full_name'', get agent ''Full Name'' ''''),
      (''state'', get agent ''State'' ''''),
      (''reason_code'', get agent ''Reason Code'' ''''),
      (''state_since'', get agent ''State Since'' ''''),
      (''state_duration'', get agent ''State Duration'' ''''),
      (''campaign_name'', get agent ''Campaign Name'' ''''),
      (''call_type'', get agent ''Call Type'' ''''),
      (''media_availability'', get agent ''Media Availability'' '''')]"

text \<open>
  The loop \<^verbatim>\<open>for row_node in root.findall(".//rows")\<close>, with \<^verbatim>\<open>rows\<close> as the
  accumulator that \<^verbatim>\<open>rows.append\<close> extends; each \<^verbatim>\<open>continue\<close> goes on with the
  accumulator unchanged.
\<close>

fun rows_loop ::
  "string \<Rightarrow> string list \<Rightarrow> elem list \<Rightarrow> snapshot_record list \<Rightarrow> snapshot_record list" where
  "rows_loop snapshot_ts columns [] rows = rows"
| "rows_loop snapshot_ts columns (row_node # rest) rows =
     (case find_child ''values'' row_node of
        None \<Rightarrow> rows_loop snapshot_ts columns rest rows
      | Some values_node \<Rightarrow>
          (let values = data_texts values_node;
               agent = dict (zip columns values)
           in if agent ''State'' = Some ''Logged Out''
              then rows_loop snapshot_ts columns rest rows
              else rows_loop snapshot_ts columns rest
                     (rows @ [snapshot_record snapshot_ts agent])))"

text \<open>
  One pass of the loop body, for stating what a single row contributes: the positional
  values of a row node (\<^verbatim>\<open>None\<close> when it has no \<^verbatim>\<open>values\<close> child), and the record
  that a list of positional values yields (\<^verbatim>\<open>None\<close> when the row is dropped).
\<close>

definition row_values :: "elem \<Rightarrow> string list option" where
  "row_values row_node = map_option data_texts (find_child ''values'' row_node)"

definition agent_record :: "string \<Rightarrow> string list \<Rightarrow> string list \<Rightarrow> snapshot_record option" where
  "agent_record snapshot_ts columns values =
     (let agent = dict (zip columns values)
      in if agent ''State'' = Some ''Logged Out'' then None
         else Some (snapshot_record snapshot_ts agent))"

definition row_record :: "string \<Rightarrow> string list \<Rightarrow> elem \<Rightarrow> snapshot_record option" where
  "row_record snapshot_ts columns row_node =
     (case row_values row_node of
        None \<Rightarrow> None
      | Some values \<Rightarrow> agent_record snapshot_ts columns values)"

section \<open>Printing numbers\<close>

text \<open>\<^verbatim>\<open>str\<close> of a Python integer, as the f-strings of the status lines format it.\<close>

definition digit_char :: "nat \<Rightarrow> char" where
  "digit_char d = ''0123456789'' ! d"

fun str_nat :: "nat \<Rightarrow> string" where
  "str_nat n = (if n < 10 then [digit_char n] else str_nat (n div 10) @ [digit_char (n mod 10)])"

declare str_nat.simps [simp del]

definition str_int :: "int \<Rightarrow> string" where
  "str_int i = (if i < 0 then CHR ''-'' # str_nat (nat (- i)) else str_nat (nat i))"

section \<open>One run of the poller\<close>

text \<open>
  Everything outside poll.py that a run reads: the clock, the replies of the two
  peers and the document parser. A reply of \<^verbatim>\<open>None\<close> is a call of \<^verbatim>\<open>requests.post\<close>
  that raises (timeout, DNS, connection reset); \<^verbatim>\<open>fromstring\<close> gives \<^verbatim>\<open>None\<close> where
  \<^verbatim>\<open>ET.fromstring\<close> raises on text it cannot parse. \<^verbatim>\<open>elapsed\<close> is the printed form
  of the rounded running time.
\<close>

text \<open>
  Of a reply poll.py reads \<^verbatim>\<open>status_code\<close> and \<^verbatim>\<open>text\<close> (here \<open>body_text\<close>). A call
  to the supervisor service is recorded with the two arguments of \<^verbatim>\<open>five9_soap_call\<close>,
  the bulk insert with the list passed as \<^verbatim>\<open>json=rows\<close>.
\<close>

record response =
  status_code :: int
  body_text :: string

datatype request =
    Five9Soap string string
  | StoreInsert "snapshot_record list"

record world =
  utc_now :: string
  session_reply :: "response option"
  statistics_reply :: "response option"
  store_reply :: "snapshot_record list \<Rightarrow> response option"
  fromstring :: "string \<Rightarrow> elem option"
  elapsed :: string

datatype fault = TransportFault | ParseError

datatype outcome = Returned | SysExit int | Uncaught fault

record run =
  stdout :: string
  requests :: "request list"
  outcome :: outcome

text \<open>
  The status the scheduler observes: \<^verbatim>\<open>sys.exit(n)\<close> ends the process with \<^verbatim>\<open>n\<close>,
  returning from \<^verbatim>\<open>main\<close> ends it with 0, an uncaught exception with 1.
\<close>

fun exit_status :: "outcome \<Rightarrow> int" where
  "exit_status Returned = 0"
| "exit_status (SysExit n) = n"
| "exit_status (Uncaught f) = 1"

definition set_session_parameters :: request where
  "set_session_parameters =
     Five9Soap ''setSessionParameters''
       (''<viewSettings>'' @ [CHR 0x0A] @
        ''        <rollingPeriod>Today</rollingPeriod>'' @ [CHR 0x0A] @
        ''        <statisticsRange>CurrentDay</statisticsRange>'' @ [CHR 0x0A] @
        ''      </viewSettings>'')"

definition get_statistics :: request where
  "get_statistics = Five9Soap ''getStatistics'' ''<statisticType>AgentState</statisticType>''"

text \<open>
  \<^verbatim>\<open>print(s)\<close> writes the characters of \<^verbatim>\<open>s\<close> and a line feed to standard output;
  line feeds inside \<^verbatim>\<open>s\<close> are written as they are.
\<close>

definition print :: "string \<Rightarrow> string" where
  "print s = s @ [CHR 0x0A]"

text \<open>
  \<^verbatim>\<open>main\<close>, statement by statement. The result holds the characters written to
  standard output, the calls made (in order, a call that raised included) and how the
  run ended.
\<close>

definition main :: "world \<Rightarrow> run" where
  "main w =
     (let snapshot_ts = utc_now w in
      (case session_reply w of
        None \<Rightarrow>
          \<lparr>stdout = [], requests = [set_session_parameters], outcome = Uncaught TransportFault\<rparr>
      | Some resp \<Rightarrow>
      if status_code resp \<noteq> 200 then
        \<lparr>stdout = print (''FAIL: Session setup returned '' @ str_int (status_code resp)),
         requests = [set_session_parameters], outcome = SysExit 1\<rparr>
      else
      (case statistics_reply w of
        None \<Rightarrow>
          \<lparr>stdout = [], requests = [set_session_parameters, get_statistics],
           outcome = Uncaught TransportFault\<rparr>
      | Some resp \<Rightarrow>
      if status_code resp \<noteq> 200 then
        \<lparr>stdout = print (''FAIL: getStatistics returned '' @ str_int (status_code resp)),
         requests = [set_session_parameters, get_statistics], outcome = SysExit 1\<rparr>
      else
      (case fromstring w (body_text resp) of
        None \<Rightarrow>
          \<lparr>stdout = [], requests = [set_session_parameters, get_statistics],
           outcome = Uncaught ParseError\<rparr>
      | Some parsed \<Rightarrow>
      let root = strip_namespaces parsed in
      (case find_columns_values root of
        None \<Rightarrow>
          \<lparr>stdout = print (''FAIL: No columns in response''),
           requests = [set_session_parameters, get_statistics], outcome = SysExit 1\<rparr>
      | Some columns_node \<Rightarrow>
      let columns = data_texts columns_node;
          rows = rows_loop snapshot_ts columns (findall_rows root) []
      in
      if rows = [] then
        \<lparr>stdout = print (''OK: 0 active agents (all logged out)''),
         requests = [set_session_parameters, get_statistics], outcome = SysExit 0\<rparr>
      else
      (case store_reply w rows of
        None \<Rightarrow>
          \<lparr>stdout = [], requests = [set_session_parameters, get_statistics, StoreInsert rows],
           outcome = Uncaught TransportFault\<rparr>
      | Some resp \<Rightarrow>
      if status_code resp \<notin> {200, 201} then
        \<lparr>stdout = print (''FAIL: Supabase returned '' @ str_int (status_code resp) @ '': '' @
                     take 300 (body_text resp)),
         requests = [set_session_parameters, get_statistics, StoreInsert rows],
         outcome = SysExit 1\<rparr>
      else
        \<lparr>stdout = print (''OK: '' @ str_int (int (length rows)) @ '' agents written | '' @
                     elapsed w @ ''s''),
         requests = [set_session_parameters, get_statistics, StoreInsert rows],
         outcome = Returned\<rparr>))))))"

section \<open>Stating the claims\<close>

text \<open>
  The nine fields after the timestamp, as (record key, column name) pairs read off the
  dictionary literal: \<open>snapshot_record_fields\<close> below shows that the literal is the
  timestamp followed by one lookup-with-default per pair.
\<close>

definition field_headers :: "(string \<times> string) list" where
  "field_headers =
     [(''username'', ''Username''), (''full_name'', ''Full Name''), (''state'', ''State''),
      (''reason_code'', ''Reason Code''), (''state_since'', ''State Since''),
      (''state_duration'', ''State Duration''), (''campaign_name'', ''Campaign Name''),
      (''call_type'', ''Call Type''), (''media_availability'', ''Media Availability'')]"




section \<open>Sample documents and runs\<close>

text \<open>
  A statistics reply in the shape the supervisor service sends it: qualified tags, one
  \<^verbatim>\<open>columns\<close> node and one \<^verbatim>\<open>rows\<close> node per agent.
\<close>

definition cell :: "string \<Rightarrow> elem" where
  "cell s = Element ''data'' (Some s) []"

definition columns_of :: "string list \<Rightarrow> elem" where
  "columns_of names = Element ''{five9}columns'' None [Element ''values'' None (map cell names)]"

definition row_of :: "string list \<Rightarrow> elem" where
  "row_of vs = Element ''{five9}rows'' None [Element ''values'' None (map cell vs)]"

definition reply_of :: "elem list \<Rightarrow> elem" where
  "reply_of nodes = Element ''{soap}Envelope'' None [Element ''{five9}return'' None nodes]"

definition sample_columns :: "string list" where
  "sample_columns = [''Username'', ''State'', ''Full Name'']"

definition sample_reply :: elem where
  "sample_reply =
     reply_of [columns_of sample_columns,
               row_of [''ann'', ''Ready'', ''Ann Lee''],
               row_of [''bob'', ''Logged Out'', ''Bob Ray''],
               Element ''{five9}rows'' None [],
               row_of [''cy'', ''On Call'']]"

definition logged_out_reply :: elem where
  "logged_out_reply =
     reply_of [columns_of sample_columns,
               row_of [''ann'', ''Logged Out'', ''Ann Lee''],
               row_of [''bob'', ''Logged Out'', ''Bob Ray'']]"

definition stateless_reply :: elem where
  "stateless_reply = reply_of [columns_of [''Username''], row_of [''ann'']]"

definition headerless_reply :: elem where
  "headerless_reply = reply_of [row_of [''ann'', ''Ready'', ''Ann Lee'']]"

definition ok_response :: response where
  "ok_response = \<lparr>status_code = 200, body_text = ''<Envelope/>''\<rparr>"

definition created_response :: response where
  "created_response = \<lparr>status_code = 201, body_text = []\<rparr>"

definition refused_response :: response where
  "refused_response = \<lparr>status_code = 409, body_text = replicate 400 (CHR 0x78)\<rparr>"

definition multiline_response :: response where
  "multiline_response =
     \<lparr>status_code = 400,
      body_text = ''duplicate key'' @ [CHR 0x0A] @ ''DETAIL: snapshot exists'' @ [CHR 0x0A] @
                  ''HINT: retry later''\<rparr>"

definition complete_reply :: elem where
  "complete_reply =
     reply_of [columns_of sample_columns,
               row_of [''ann'', ''Ready'', ''Ann Lee''],
               row_of [''bob'', ''Logged Out'', ''Bob Ray''],
               row_of [''cy'', ''On Call'']]"

definition sample_world :: "elem \<Rightarrow> response option \<Rightarrow> world" where
  "sample_world document store =
     \<lparr>utc_now = ''2024-05-01T12:00:00+00:00'',
      session_reply = Some ok_response,
      statistics_reply = Some ok_response,
      store_reply = (\<lambda>payload. store),
      fromstring = (\<lambda>body. Some document),
      elapsed = ''0.42''\<rparr>"

definition unreachable_world :: world where
  "unreachable_world = (sample_world sample_reply None)\<lparr>session_reply := None\<rparr>"

definition rejecting_world :: world where
  "rejecting_world =
     (sample_world sample_reply None)
       \<lparr>session_reply := Some \<lparr>status_code = 500, body_text = ''Server Error''\<rparr>\<rparr>"

section \<open>Auxiliary facts\<close>

lemma foldl_upd_map_add:
  "foldl (\<lambda>m (k, v). m(k \<mapsto> v)) m kvs = m ++ map_of (rev kvs)"
  by (induction kvs arbitrary: m) (auto simp: fun_eq_iff map_add_def split: option.splits)

lemma dict_map_of: "dict kvs = map_of (rev kvs)"
  by (simp add: dict_def foldl_upd_map_add)

lemma map_of_zip_index:
  "distinct cs \<Longrightarrow> i < length cs \<Longrightarrow>
     map_of (zip cs vs) (cs ! i) = (if i < length vs then Some (vs ! i) else None)"
proof (induction cs arbitrary: vs i)
  case Nil
  then show ?case by simp
next
  case (Cons c cs)
  show ?case
  proof (cases vs)
    case Nil
    then show ?thesis by simp
  next
    case (Cons v vs')
    with Cons.prems Cons.IH [of _ vs'] show ?thesis
      by (cases i) auto
  qed
qed

lemma dict_zip_distinct:
  assumes "distinct columns" and "i < length columns"
  shows "dict (zip columns vs) (columns ! i) =
           (if i < length vs then Some (vs ! i) else None)"
proof -
  let ?kvs = "zip columns vs"
  have d: "distinct (map fst ?kvs)"
    using assms(1) by (simp add: map_fst_zip_take)
  then have "distinct (map fst (rev ?kvs))"
    by (simp add: rev_map [symmetric])
  with d have "map_of (rev ?kvs) = map_of ?kvs"
    by (simp add: map_of_inject_set)
  then show ?thesis
    using assms by (simp add: dict_map_of map_of_zip_index)
qed

lemma zip_take_columns:
  "zip columns (take (length columns) vs) = zip columns vs"
  by (induction columns arbitrary: vs) (auto simp: zip_Cons1 take_Cons split: list.splits)

lemma map_filter_append:
  "List.map_filter f (xs @ ys) = List.map_filter f xs @ List.map_filter f ys"
  by (simp add: List.map_filter_def)

lemma set_map_filter:
  "set (List.map_filter f xs) = {y. \<exists>x \<in> set xs. f x = Some y}"
  by (force simp: List.map_filter_def image_iff)

lemma rows_loop_map_filter:
  "rows_loop ts columns row_nodes rows = rows @ List.map_filter (row_record ts columns) row_nodes"
  by (induction row_nodes arbitrary: rows)
     (auto simp: List.map_filter_simps row_record_def row_values_def agent_record_def Let_def
           split: option.splits)

lemma snapshot_record_fields:
  "snapshot_record ts agent =
     (''snapshot_ts'', ts) # map (\<lambda>(f, h). (f, get agent h '''')) field_headers"
  by (simp add: snapshot_record_def field_headers_def)

lemma snapshot_record_ts: "map_of (snapshot_record ts agent) ''snapshot_ts'' = Some ts"
  by (simp add: snapshot_record_def)

lemma snapshot_record_state:
  "map_of (snapshot_record ts agent) ''state'' = Some (get agent ''State'' '''')"
  by (simp add: snapshot_record_def)

lemma row_record_Some:
  "row_record ts columns row_node = Some r \<longleftrightarrow>
     (\<exists>vs. row_values row_node = Some vs \<and> dict (zip columns vs) ''State'' \<noteq> Some ''Logged Out''
        \<and> r = snapshot_record ts (dict (zip columns vs)))"
  by (auto simp: row_record_def agent_record_def Let_def split: option.splits)

lemma distinct_field_keys: "distinct (map fst field_headers)"
  by (simp add: field_headers_def)

lemma map_of_map_value:
  "distinct (map fst xs) \<Longrightarrow> (k, v) \<in> set xs \<Longrightarrow>
     map_of (map (\<lambda>(k, v). (k, g v)) xs) k = Some (g v)"
  by (induction xs) (auto simp: rev_image_eqI)

lemma field_keys_not_ts: "(f, h) \<in> set field_headers \<Longrightarrow> f \<noteq> ''snapshot_ts''"
  by (auto simp: field_headers_def)

lemma field_lookup:
  assumes "(f, h) \<in> set field_headers"
  shows "map_of (snapshot_record ts agent) f = Some (get agent h '''')"
proof -
  have "map_of (map (\<lambda>(f, h). (f, get agent h '''')) field_headers) f = Some (get agent h '''')"
    using distinct_field_keys assms by (rule map_of_map_value)
  then show ?thesis
    using field_keys_not_ts [OF assms] by (simp add: snapshot_record_fields)
qed

lemmas sample_defs =
  cell_def columns_of_def row_of_def reply_of_def sample_columns_def sample_reply_def
  logged_out_reply_def stateless_reply_def headerless_reply_def ok_response_def
  created_response_def refused_response_def complete_reply_def multiline_response_def
  sample_world_def unreachable_world_def rejecting_world_def

lemmas transformer_defs =
  strip_tag_def descendants_def findall_children_def first_match_def find_child_def
  find_columns_values_def findall_rows_def text_or_empty_def data_texts_def dict_def get_def
  snapshot_record_def row_values_def agent_record_def row_record_def

lemmas printing_defs = digit_char_def str_int_def str_nat.simps print_def

lemma row_record_no_values:
  "find_child ''values'' row_node = None \<Longrightarrow> row_record ts columns row_node = None"
  by (simp add: row_record_def row_values_def)

lemma rows_loop_skip:
  "row_record ts columns row_node = None \<Longrightarrow>
     rows_loop ts columns (earlier @ row_node # later) rows =
     rows_loop ts columns (earlier @ later) rows"
  by (simp add: rows_loop_map_filter map_filter_append List.map_filter_simps)

lemma rows_loop_same_record:
  "row_record ts columns row_node = row_record ts columns other_node \<Longrightarrow>
     rows_loop ts columns (earlier @ row_node # later) rows =
     rows_loop ts columns (earlier @ other_node # later) rows"
  by (simp add: rows_loop_map_filter map_filter_append List.map_filter_simps)

lemma map_filter_Nil_iff:
  "List.map_filter f xs = [] \<longleftrightarrow> (\<forall>x \<in> set xs. f x = None)"
  by (induction xs) (auto simp: List.map_filter_simps split: option.splits)

lemma rows_loop_Nil_iff:
  "rows_loop ts columns row_nodes [] = [] \<longleftrightarrow>
     (\<forall>row_node \<in> set row_nodes.
        case row_values row_node of
          None \<Rightarrow> True
        | Some vs \<Rightarrow> dict (zip columns vs) ''State'' = Some ''Logged Out'')"
  by (auto simp: rows_loop_map_filter map_filter_Nil_iff row_record_def agent_record_def Let_def
           split: option.splits)

lemma map_of_rev_zip_unpaired:
  assumes "k \<notin> set (take (length vs) columns)"
  shows "map_of (rev (zip columns vs)) k = None"
proof -
  have "map fst (zip columns vs) = take (length vs) columns"
    by (simp add: map_fst_zip_take min_def)
  with assms have "k \<notin> fst ` set (rev (zip columns vs))"
    by (metis set_map set_rev)
  then show ?thesis
    by (simp add: map_of_eq_None_iff)
qed

lemma map_of_rev_zip_last_paired:
  "i < length columns \<Longrightarrow> i < length vs \<Longrightarrow>
   columns ! i \<notin> set (drop (Suc i) (take (length vs) columns)) \<Longrightarrow>
     map_of (rev (zip columns vs)) (columns ! i) = Some (vs ! i)"
proof (induction columns arbitrary: vs i)
  case Nil
  then show ?case by simp
next
  case (Cons c cs)
  from Cons.prems(2) obtain v vs' where vs: "vs = v # vs'"
    by (cases vs) auto
  show ?case
  proof (cases i)
    case 0
    with Cons.prems vs have "c \<notin> set (take (length vs') cs)"
      by simp
    then have "map_of (rev (zip cs vs')) c = None"
      by (rule map_of_rev_zip_unpaired)
    then show ?thesis
      using 0 vs by (simp add: map_add_def)
  next
    case (Suc j)
    with Cons.prems vs have "map_of (rev (zip cs vs')) (cs ! j) = Some (vs' ! j)"
      using Cons.IH [of j vs'] by simp
    then show ?thesis
      using Suc vs by (simp add: map_add_def)
  qed
qed

lemma dict_zip_unpaired:
  "k \<notin> set (take (length vs) columns) \<Longrightarrow> dict (zip columns vs) k = None"
  by (simp add: dict_map_of map_of_rev_zip_unpaired)

lemma dict_zip_last_paired:
  "i < length columns \<Longrightarrow> i < length vs \<Longrightarrow>
   columns ! i \<notin> set (drop (Suc i) (take (length vs) columns)) \<Longrightarrow>
     dict (zip columns vs) (columns ! i) = Some (vs ! i)"
  by (simp add: dict_map_of map_of_rev_zip_last_paired)

lemma rows_loop_emits:
  assumes "row_values row_node = Some vs"
    and "dict (zip columns vs) ''State'' \<noteq> Some ''Logged Out''"
  shows "rows_loop ts columns (earlier @ row_node # later) [] =
           rows_loop ts columns earlier [] @
           snapshot_record ts (dict (zip columns vs)) # rows_loop ts columns later []"
proof -
  have "row_record ts columns row_node = Some (snapshot_record ts (dict (zip columns vs)))"
    using assms by (simp add: row_record_Some)
  then show ?thesis
    by (simp add: rows_loop_map_filter map_filter_append List.map_filter_simps)
qed







section \<open>The claims\<close>

text \<open>
  C1, as the spec words it, does not hold: a row whose header has no \<^verbatim>\<open>State\<close> column
  (so that its State field is absent) is emitted, with an empty \<^verbatim>\<open>state\<close>.
\<close>

theorem state_absent_row_emitted:
  "row_values (row_of [''ann'']) = Some [''ann'']
   \<and> dict (zip [''Username''] [''ann'']) ''State'' = None
   \<and> rows_loop ''T'' [''Username''] [row_of [''ann'']] [] =
        [[(''snapshot_ts'', ''T''), (''username'', ''ann''), (''full_name'', ''''),
          (''state'', ''''), (''reason_code'', ''''), (''state_since'', ''''),
          (''state_duration'', ''''), (''campaign_name'', ''''), (''call_type'', ''''),
          (''media_availability'', '''')]]
   \<and> main (sample_world stateless_reply (Some created_response)) =
        \<lparr>stdout = print (''OK: 1 agents written | 0.42s''),
         requests =
           [set_session_parameters, get_statistics,
            StoreInsert
              [[(''snapshot_ts'', ''2024-05-01T12:00:00+00:00''), (''username'', ''ann''),
                (''full_name'', ''''), (''state'', ''''), (''reason_code'', ''''),
                (''state_since'', ''''), (''state_duration'', ''''), (''campaign_name'', ''''),
                (''call_type'', ''''), (''media_availability'', '''')]]],
         outcome = Returned\<rparr>"
  by (simp add: main_def Let_def sample_defs transformer_defs printing_defs)

text \<open>
  C1 (amended): the record list is exactly the records of the rows that have a value list
  and whose State field is not \<^verbatim>\<open>Logged Out\<close>, in document order; a row yields a
  record if and only if it has a value list and its State lookup is not \<^verbatim>\<open>Logged Out\<close>
  (an absent State passes the test); and no emitted record has the state \<^verbatim>\<open>Logged Out\<close>,
  whatever the other fields are.
\<close>

theorem emitted_iff_not_logged_out:
  "rows_loop ts columns row_nodes [] = List.map_filter (row_record ts columns) row_nodes
   \<and> (row_record ts columns row_node \<noteq> None \<longleftrightarrow>
        (\<exists>vs. row_values row_node = Some vs
              \<and> dict (zip columns vs) ''State'' \<noteq> Some ''Logged Out''))
   \<and> (\<forall>r \<in> set (rows_loop ts columns row_nodes []). map_of r ''state'' \<noteq> Some ''Logged Out'')"
proof (intro conjI)
  show "rows_loop ts columns row_nodes [] = List.map_filter (row_record ts columns) row_nodes"
    by (simp add: rows_loop_map_filter)
  show "row_record ts columns row_node \<noteq> None \<longleftrightarrow>
        (\<exists>vs. row_values row_node = Some vs
              \<and> dict (zip columns vs) ''State'' \<noteq> Some ''Logged Out'')"
    by (auto simp: row_record_def agent_record_def Let_def split: option.splits)
  show "\<forall>r \<in> set (rows_loop ts columns row_nodes []). map_of r ''state'' \<noteq> Some ''Logged Out''"
  proof
    fix r
    assume "r \<in> set (rows_loop ts columns row_nodes [])"
    then obtain row_node where "row_record ts columns row_node = Some r"
      by (auto simp: rows_loop_map_filter set_map_filter)
    then obtain vs where
      st: "dict (zip columns vs) ''State'' \<noteq> Some ''Logged Out''" and
      r: "r = snapshot_record ts (dict (zip columns vs))"
      by (auto simp: row_record_Some)
    from st have "get (dict (zip columns vs)) ''State'' '''' \<noteq> ''Logged Out''"
      by (auto simp: get_def split: option.splits)
    with r show "map_of r ''state'' \<noteq> Some ''Logged Out''"
      by (simp add: snapshot_record_state)
  qed
qed

theorem emitted_iff_not_logged_out_witness:
  "rows_loop ''T'' sample_columns
     [row_of [''ann'', ''Ready''], row_of [''bob'', ''Logged Out''], row_of [''cy'']] [] =
     [snapshot_record ''T'' [''Username'' \<mapsto> ''ann'', ''State'' \<mapsto> ''Ready''],
      snapshot_record ''T'' [''Username'' \<mapsto> ''cy'']]
   \<and> row_record ''T'' sample_columns (row_of [''ann'', ''Ready'']) \<noteq> None
   \<and> row_record ''T'' sample_columns (row_of [''bob'', ''Logged Out'']) = None"
  using emitted_iff_not_logged_out
          [of "''T''" sample_columns
              "[row_of [''ann'', ''Ready''], row_of [''bob'', ''Logged Out''], row_of [''cy'']]"
              "row_of [''ann'', ''Ready'']"]
  by (simp add: sample_defs transformer_defs List.map_filter_simps)

text \<open>
  C2, as the spec words it, does not hold: with the header \<^verbatim>\<open>[State, State]\<close> and the
  single value \<^verbatim>\<open>Ready\<close>, the header entry at index 1 lies beyond the value list, yet
  the record emitted for the row has the state \<^verbatim>\<open>Ready\<close> and not the empty string.
\<close>

theorem repeated_header_keeps_value:
  "[''State'', ''State''] ! 1 = ''State''
   \<and> length [''Ready''] \<le> 1
   \<and> get (dict (zip [''State'', ''State''] [''Ready''])) ([''State'', ''State''] ! 1) '''' = ''Ready''
   \<and> rows_loop ''T'' [''State'', ''State''] [row_of [''Ready'']] [] =
        [[(''snapshot_ts'', ''T''), (''username'', ''''), (''full_name'', ''''),
          (''state'', ''Ready''), (''reason_code'', ''''), (''state_since'', ''''),
          (''state_duration'', ''''), (''campaign_name'', ''''), (''call_type'', ''''),
          (''media_availability'', '''')]]"
  by (simp add: sample_defs transformer_defs)

text \<open>
  C2 (amended): a row with a value list whose State is not \<^verbatim>\<open>Logged Out\<close> puts exactly
  one record into the loop's list, at the row's place. The record has the ten fixed keys,
  each of the nine fields holding the lookup of its column name with the empty string as
  default. A name that is not among the header entries paired with a value reads as the
  empty string; the name at a paired index reads as the value at that index unless the
  same name is paired again later. So with pairwise distinct names the entry at index
  \<open>i\<close> reads as the value at \<open>i\<close>, and as the empty string beyond the value list.
\<close>

theorem header_row_pairing:
  assumes "row_values row_node = Some vs"
    and "dict (zip columns vs) ''State'' \<noteq> Some ''Logged Out''"
  shows "\<exists>r. rows_loop ts columns (earlier @ row_node # later) [] =
               rows_loop ts columns earlier [] @ r # rows_loop ts columns later []
     \<and> map fst r = ''snapshot_ts'' # map fst field_headers
     \<and> (\<forall>(f, h) \<in> set field_headers. map_of r f = Some (get (dict (zip columns vs)) h ''''))
     \<and> (\<forall>k. k \<notin> set (take (length vs) columns) \<longrightarrow>
           dict (zip columns vs) k = None \<and> get (dict (zip columns vs)) k '''' = '''')
     \<and> (\<forall>i. i < length columns \<and> i < length vs
             \<and> columns ! i \<notin> set (drop (Suc i) (take (length vs) columns)) \<longrightarrow>
           get (dict (zip columns vs)) (columns ! i) '''' = vs ! i)
     \<and> (distinct columns \<longrightarrow>
          (\<forall>i < length columns.
             get (dict (zip columns vs)) (columns ! i) '''' =
               (if i < length vs then vs ! i else '''')))"
proof (intro exI conjI)
  let ?agent = "dict (zip columns vs)"
  show "rows_loop ts columns (earlier @ row_node # later) [] =
          rows_loop ts columns earlier [] @ snapshot_record ts ?agent # rows_loop ts columns later []"
    using assms by (rule rows_loop_emits)
  show "map fst (snapshot_record ts ?agent) = ''snapshot_ts'' # map fst field_headers"
    by (simp add: snapshot_record_fields case_prod_unfold)
  show "\<forall>(f, h) \<in> set field_headers. map_of (snapshot_record ts ?agent) f = Some (get ?agent h '''')"
    by (auto intro: field_lookup)
  show "\<forall>k. k \<notin> set (take (length vs) columns) \<longrightarrow> ?agent k = None \<and> get ?agent k '''' = ''''"
    by (simp add: get_def dict_zip_unpaired)
  show "\<forall>i. i < length columns \<and> i < length vs
            \<and> columns ! i \<notin> set (drop (Suc i) (take (length vs) columns)) \<longrightarrow>
          get ?agent (columns ! i) '''' = vs ! i"
    by (simp add: get_def dict_zip_last_paired)
  show "distinct columns \<longrightarrow>
          (\<forall>i < length columns.
             get ?agent (columns ! i) '''' = (if i < length vs then vs ! i else ''''))"
    by (simp add: get_def dict_zip_distinct)
qed

theorem header_row_pairing_witness:
  "row_values (row_of [''ann'', ''Ready'']) = Some [''ann'', ''Ready'']
   \<and> dict (zip [''Username'', ''State'', ''Full Name''] [''ann'', ''Ready'']) ''State'' = Some ''Ready''
   \<and> rows_loop ''T'' [''Username'', ''State'', ''Full Name'']
        ([row_of [''bob'', ''Logged Out'']] @ row_of [''ann'', ''Ready''] # [row_of [''cy'']]) [] =
      rows_loop ''T'' [''Username'', ''State'', ''Full Name''] [row_of [''bob'', ''Logged Out'']] []
      @ [(''snapshot_ts'', ''T''), (''username'', ''ann''), (''full_name'', ''''),
         (''state'', ''Ready''), (''reason_code'', ''''), (''state_since'', ''''),
         (''state_duration'', ''''), (''campaign_name'', ''''), (''call_type'', ''''),
         (''media_availability'', '''')]
      # rows_loop ''T'' [''Username'', ''State'', ''Full Name''] [row_of [''cy'']] []
   \<and> get (dict (zip [''Username'', ''State'', ''Full Name''] [''ann'', ''Ready''])) ''Username'' '''' = ''ann''
   \<and> get (dict (zip [''Username'', ''State'', ''Full Name''] [''ann'', ''Ready''])) ''State'' '''' = ''Ready''
   \<and> get (dict (zip [''Username'', ''State'', ''Full Name''] [''ann'', ''Ready''])) ''Full Name'' '''' = ''''"
proof -
  let ?columns = "[''Username'', ''State'', ''Full Name'']"
  let ?vs = "[''ann'', ''Ready'']"
  let ?agent = "dict (zip ?columns ?vs)"
  have has_values: "row_values (row_of ?vs) = Some ?vs"
    by (simp add: sample_defs transformer_defs)
  have state: "?agent ''State'' = Some ''Ready''"
    by (simp add: dict_def)
  then have kept: "?agent ''State'' \<noteq> Some ''Logged Out''"
    by simp
  from header_row_pairing
         [OF has_values kept, of "''T''" "[row_of [''bob'', ''Logged Out'']]" "[row_of [''cy'']]"]
  obtain r where
    emitted: "rows_loop ''T'' ?columns
                ([row_of [''bob'', ''Logged Out'']] @ row_of ?vs # [row_of [''cy'']]) [] =
              rows_loop ''T'' ?columns [row_of [''bob'', ''Logged Out'']] []
              @ r # rows_loop ''T'' ?columns [row_of [''cy'']] []" and
    keys: "map fst r = ''snapshot_ts'' # map fst field_headers" and
    paired: "\<forall>i < length ?columns.
               get ?agent (?columns ! i) '''' = (if i < length ?vs then ?vs ! i else '''')"
    by auto
  have reads: "get ?agent ''Username'' '''' = ''ann''" "get ?agent ''State'' '''' = ''Ready''"
    "get ?agent ''Full Name'' '''' = ''''"
    using paired [rule_format, of 0] paired [rule_format, of 1] paired [rule_format, of 2]
    by simp_all
  have "r = [(''snapshot_ts'', ''T''), (''username'', ''ann''), (''full_name'', ''''),
         (''state'', ''Ready''), (''reason_code'', ''''), (''state_since'', ''''),
         (''state_duration'', ''''), (''campaign_name'', ''''), (''call_type'', ''''),
         (''media_availability'', '''')]"
    using emitted by (simp add: sample_defs transformer_defs)
  with emitted has_values state reads show ?thesis
    by simp
qed

text \<open>
  C3: when both calls answer 200, the reply parses and has a column-definition node, and
  the transformed record list is empty, the run prints the "0 active agents" line, exits
  with status 0 and has sent nothing to the store. By \<open>rows_loop_Nil_iff\<close> the list is
  empty exactly when every row node lacks a value list or has the State \<^verbatim>\<open>Logged Out\<close>,
  which covers a reply with no row at all.
\<close>

theorem empty_result_short_circuit:
  assumes "session_reply w = Some session" and "status_code session = 200"
    and "statistics_reply w = Some statistics" and "status_code statistics = 200"
    and "fromstring w (body_text statistics) = Some parsed"
    and "find_columns_values (strip_namespaces parsed) = Some columns_node"
    and "rows_loop (utc_now w) (data_texts columns_node)
           (findall_rows (strip_namespaces parsed)) [] = []"
  shows "exit_status (outcome (main w)) = 0
     \<and> outcome (main w) = SysExit 0
     \<and> stdout (main w) = print (''OK: 0 active agents (all logged out)'')
     \<and> requests (main w) = [set_session_parameters, get_statistics]
     \<and> (\<forall>payload. StoreInsert payload \<notin> set (requests (main w)))"
  using assms by (simp add: main_def Let_def set_session_parameters_def get_statistics_def)

theorem empty_result_short_circuit_witness:
  "exit_status (outcome (main (sample_world logged_out_reply None))) = 0
   \<and> requests (main (sample_world logged_out_reply None)) =
       [set_session_parameters, get_statistics]
   \<and> rows_loop ''2024-05-01T12:00:00+00:00'' sample_columns
        (findall_rows (strip_namespaces logged_out_reply)) [] = []"
  using empty_result_short_circuit
          [of "sample_world logged_out_reply None" ok_response ok_response logged_out_reply
              "Element ''values'' None (map cell sample_columns)"]
  by (simp add: sample_defs transformer_defs)




text \<open>
  C5: every record the loop produces, and so every record of a payload sent to the store,
  has the \<^verbatim>\<open>snapshot_ts\<close> that the run read from the clock once at its start.
\<close>

theorem snapshot_ts_shared:
  "(\<forall>r \<in> set (rows_loop ts columns row_nodes []). map_of r ''snapshot_ts'' = Some ts)
   \<and> (\<forall>payload. StoreInsert payload \<in> set (requests (main w)) \<longrightarrow>
         (\<forall>r \<in> set payload. map_of r ''snapshot_ts'' = Some (utc_now w)))"
proof (intro conjI)
  have loop: "map_of r ''snapshot_ts'' = Some t"
    if "r \<in> set (rows_loop t cs ns [])" for r t cs ns
  proof -
    from that obtain n where "row_record t cs n = Some r"
      by (auto simp: rows_loop_map_filter set_map_filter)
    then show ?thesis
      by (auto simp: row_record_Some snapshot_record_ts)
  qed
  then show "\<forall>r \<in> set (rows_loop ts columns row_nodes []). map_of r ''snapshot_ts'' = Some ts"
    by blast
  show "\<forall>payload. StoreInsert payload \<in> set (requests (main w)) \<longrightarrow>
          (\<forall>r \<in> set payload. map_of r ''snapshot_ts'' = Some (utc_now w))"
    by (auto simp: main_def Let_def set_session_parameters_def get_statistics_def loop
             split: option.splits if_splits)
qed

theorem snapshot_ts_shared_witness:
  "requests (main (sample_world sample_reply (Some created_response))) =
     [set_session_parameters, get_statistics,
      StoreInsert
        [snapshot_record ''2024-05-01T12:00:00+00:00''
           [''Username'' \<mapsto> ''ann'', ''State'' \<mapsto> ''Ready'', ''Full Name'' \<mapsto> ''Ann Lee''],
         snapshot_record ''2024-05-01T12:00:00+00:00''
           [''Username'' \<mapsto> ''cy'', ''State'' \<mapsto> ''On Call'']]]
   \<and> map (\<lambda>r. map_of r ''snapshot_ts'')
         (rows_loop ''2024-05-01T12:00:00+00:00'' sample_columns
            (findall_rows (strip_namespaces sample_reply)) []) =
       [Some ''2024-05-01T12:00:00+00:00'', Some ''2024-05-01T12:00:00+00:00'']"
  using snapshot_ts_shared
          [of "''2024-05-01T12:00:00+00:00''" sample_columns
              "findall_rows (strip_namespaces sample_reply)"
              "sample_world sample_reply (Some created_response)"]
  by (simp add: main_def Let_def sample_defs transformer_defs)

text \<open>
  C6: when the run reaches the store with a non-empty record list and the store answers,
  exactly one insert carrying the whole list has been sent; on 200 or 201 the exit status
  is 0 and the line printed counts the records; on any other status the run exits with 1
  and prints the status code followed by at most 300 characters of the reply's body.
\<close>

theorem store_reply_decides:
  assumes "session_reply w = Some session" and "status_code session = 200"
    and "statistics_reply w = Some statistics" and "status_code statistics = 200"
    and "fromstring w (body_text statistics) = Some parsed"
    and "find_columns_values (strip_namespaces parsed) = Some columns_node"
    and "rows = rows_loop (utc_now w) (data_texts columns_node)
                  (findall_rows (strip_namespaces parsed)) []"
    and "rows \<noteq> []"
    and "store_reply w rows = Some resp"
  shows "requests (main w) = [set_session_parameters, get_statistics, StoreInsert rows]
     \<and> (if status_code resp = 200 \<or> status_code resp = 201
         then exit_status (outcome (main w)) = 0
            \<and> stdout (main w) =
                print (''OK: '' @ str_int (int (length rows)) @ '' agents written | '' @ elapsed w @ ''s'')
         else outcome (main w) = SysExit 1
            \<and> exit_status (outcome (main w)) = 1
            \<and> stdout (main w) =
                print (''FAIL: Supabase returned '' @ str_int (status_code resp) @ '': '' @
                 take 300 (body_text resp))
            \<and> length (take 300 (body_text resp)) \<le> 300)"
  using assms by (simp add: main_def Let_def)

theorem store_reply_decides_witness:
  "stdout (main (sample_world sample_reply (Some created_response))) =
     print (''OK: 2 agents written | 0.42s'')
   \<and> exit_status (outcome (main (sample_world sample_reply (Some created_response)))) = 0
   \<and> stdout (main (sample_world sample_reply (Some refused_response))) =
     print (''FAIL: Supabase returned 409: '' @ replicate 300 (CHR 0x78))
   \<and> outcome (main (sample_world sample_reply (Some refused_response))) = SysExit 1"
proof -
  let ?columns_node = "Element ''values'' None (map cell sample_columns)"
  let ?rows = "rows_loop ''2024-05-01T12:00:00+00:00'' sample_columns
                 (findall_rows (strip_namespaces sample_reply)) []"
  have found: "find_columns_values (strip_namespaces sample_reply) = Some ?columns_node"
    by (simp add: sample_defs transformer_defs)
  have columns: "data_texts ?columns_node = sample_columns"
    by (simp add: sample_defs transformer_defs)
  have len: "length ?rows = 2"
    by (simp add: sample_defs transformer_defs)
  then have nonempty: "?rows \<noteq> []"
    by auto
  have "stdout (main (sample_world sample_reply (Some created_response))) =
          print (''OK: '' @ str_int (int (length ?rows)) @ '' agents written | '' @ ''0.42'' @ ''s'')
        \<and> exit_status (outcome (main (sample_world sample_reply (Some created_response)))) = 0"
    using nonempty found
      store_reply_decides
        [of "sample_world sample_reply (Some created_response)" ok_response ok_response
            sample_reply ?columns_node ?rows created_response]
    by (simp add: columns sample_world_def ok_response_def created_response_def)
  moreover have "stdout (main (sample_world sample_reply (Some refused_response))) =
          print (''FAIL: Supabase returned '' @ str_int 409 @ '': '' @ replicate 300 (CHR 0x78))
        \<and> outcome (main (sample_world sample_reply (Some refused_response))) = SysExit 1"
    using nonempty found
      store_reply_decides
        [of "sample_world sample_reply (Some refused_response)" ok_response ok_response
            sample_reply ?columns_node ?rows refused_response]
    by (simp add: columns sample_world_def ok_response_def refused_response_def)
  ultimately show ?thesis
    by (simp add: len printing_defs)
qed

text \<open>
  C7: a session-configuration reply other than 200 ends the run with exit code 1, a line
  naming the status code, and no call but that one; a statistics reply other than 200
  does the same after the two calls, and nothing is sent to the store.
\<close>

theorem bad_status_is_fatal:
  "(session_reply w = Some resp \<and> status_code resp \<noteq> 200 \<longrightarrow>
      main w = \<lparr>stdout = print (''FAIL: Session setup returned '' @ str_int (status_code resp)),
                requests = [set_session_parameters], outcome = SysExit 1\<rparr>)
   \<and> (session_reply w = Some session \<and> status_code session = 200
        \<and> statistics_reply w = Some resp \<and> status_code resp \<noteq> 200 \<longrightarrow>
      main w = \<lparr>stdout = print (''FAIL: getStatistics returned '' @ str_int (status_code resp)),
                requests = [set_session_parameters, get_statistics], outcome = SysExit 1\<rparr>)"
  by (simp add: main_def)

theorem bad_status_is_fatal_witness:
  "main rejecting_world =
     \<lparr>stdout = print (''FAIL: Session setup returned 500''),
      requests = [set_session_parameters], outcome = SysExit 1\<rparr>
   \<and> main (rejecting_world
             \<lparr>session_reply := Some ok_response, statistics_reply := session_reply rejecting_world\<rparr>) =
     \<lparr>stdout = print (''FAIL: getStatistics returned 500''),
      requests = [set_session_parameters, get_statistics], outcome = SysExit 1\<rparr>
   \<and> exit_status (SysExit 1) = 1"
  using bad_status_is_fatal
          [of rejecting_world "\<lparr>status_code = 500, body_text = ''Server Error''\<rparr>"]
        bad_status_is_fatal
          [of "rejecting_world
                 \<lparr>session_reply := Some ok_response, statistics_reply := session_reply rejecting_world\<rparr>"
              "\<lparr>status_code = 500, body_text = ''Server Error''\<rparr>" ok_response]
  by (simp add: rejecting_world_def sample_world_def ok_response_def printing_defs)

text \<open>
  C8: when the parsed reply has no \<^verbatim>\<open>columns/values\<close> node the run prints its diagnostic,
  exits with code 1 (no uncaught exception) and sends nothing to the store.
\<close>

theorem missing_columns_is_fatal:
  assumes "session_reply w = Some session" and "status_code session = 200"
    and "statistics_reply w = Some statistics" and "status_code statistics = 200"
    and "fromstring w (body_text statistics) = Some parsed"
    and "find_columns_values (strip_namespaces parsed) = None"
  shows "main w = \<lparr>stdout = print (''FAIL: No columns in response''),
                   requests = [set_session_parameters, get_statistics],
                   outcome = SysExit 1\<rparr>
     \<and> exit_status (outcome (main w)) = 1
     \<and> (\<forall>payload. StoreInsert payload \<notin> set (requests (main w)))"
  using assms by (simp add: main_def Let_def set_session_parameters_def get_statistics_def)

theorem missing_columns_is_fatal_witness:
  "find_columns_values (strip_namespaces headerless_reply) = None
   \<and> main (sample_world headerless_reply (Some created_response)) =
       \<lparr>stdout = print (''FAIL: No columns in response''),
        requests = [set_session_parameters, get_statistics],
        outcome = SysExit 1\<rparr>"
  using missing_columns_is_fatal
          [of "sample_world headerless_reply (Some created_response)" ok_response ok_response
              headerless_reply]
  by (simp add: sample_defs transformer_defs)

text \<open>
  C9: a row node without a \<^verbatim>\<open>values\<close> child yields no record, the loop gives the same
  list as without that node, and the whole run (output, calls and exit) is the same as
  the run on a reply whose row nodes are the others.
\<close>

theorem row_without_values_skipped:
  assumes "find_child ''values'' row_node = None"
  shows "row_record ts columns row_node = None
     \<and> rows_loop ts columns (earlier @ row_node # later) rows =
         rows_loop ts columns (earlier @ later) rows
     \<and> (findall_rows (strip_namespaces parsed) = earlier @ row_node # later
          \<and> findall_rows (strip_namespaces pruned) = earlier @ later
          \<and> find_columns_values (strip_namespaces pruned) =
              find_columns_values (strip_namespaces parsed) \<longrightarrow>
         main (w\<lparr>fromstring := \<lambda>body. Some parsed\<rparr>) =
         main (w\<lparr>fromstring := \<lambda>body. Some pruned\<rparr>))"
proof (intro conjI impI)
  show none: "row_record ts columns row_node = None"
    using assms by (rule row_record_no_values)
  then show "rows_loop ts columns (earlier @ row_node # later) rows =
             rows_loop ts columns (earlier @ later) rows"
    by (rule rows_loop_skip)
  assume same: "findall_rows (strip_namespaces parsed) = earlier @ row_node # later
          \<and> findall_rows (strip_namespaces pruned) = earlier @ later
          \<and> find_columns_values (strip_namespaces pruned) =
              find_columns_values (strip_namespaces parsed)"
  have skip: "rows_loop t cs (earlier @ row_node # later) [] = rows_loop t cs (earlier @ later) []"
    for t cs
    using assms by (simp add: rows_loop_skip row_record_no_values)
  show "main (w\<lparr>fromstring := \<lambda>body. Some parsed\<rparr>) =
        main (w\<lparr>fromstring := \<lambda>body. Some pruned\<rparr>)"
    using same by (simp add: main_def Let_def skip split: option.split)
qed

theorem row_without_values_skipped_witness:
  "find_child ''values'' (Element ''rows'' None []) = None
   \<and> rows_loop ''T'' sample_columns
        [row_of [''ann'', ''Ready''], Element ''rows'' None [], row_of [''cy'', ''On Call'']] [] =
       rows_loop ''T'' sample_columns [row_of [''ann'', ''Ready''], row_of [''cy'', ''On Call'']] []
   \<and> main (sample_world sample_reply (Some created_response)) =
       main (sample_world complete_reply (Some created_response))
   \<and> stdout (main (sample_world sample_reply (Some created_response))) =
       print (''OK: 2 agents written | 0.42s'')"
proof -
  let ?w = "sample_world sample_reply (Some created_response)"
  have shape:
    "findall_rows (strip_namespaces sample_reply) =
       [Element ''rows'' None [Element ''values'' None (map cell [''ann'', ''Ready'', ''Ann Lee''])],
        Element ''rows'' None [Element ''values'' None (map cell [''bob'', ''Logged Out'', ''Bob Ray''])]]
       @ Element ''rows'' None []
       # [Element ''rows'' None [Element ''values'' None (map cell [''cy'', ''On Call''])]]"
    "findall_rows (strip_namespaces complete_reply) =
       [Element ''rows'' None [Element ''values'' None (map cell [''ann'', ''Ready'', ''Ann Lee''])],
        Element ''rows'' None [Element ''values'' None (map cell [''bob'', ''Logged Out'', ''Bob Ray''])]]
       @ [Element ''rows'' None [Element ''values'' None (map cell [''cy'', ''On Call''])]]"
    "find_columns_values (strip_namespaces complete_reply) =
       find_columns_values (strip_namespaces sample_reply)"
    by (simp_all add: sample_defs transformer_defs)
  have none: "find_child ''values'' (Element ''rows'' None []) = None"
    by (simp add: find_child_def findall_children_def first_match_def)
  have worlds:
    "?w\<lparr>fromstring := \<lambda>body. Some sample_reply\<rparr> = ?w"
    "?w\<lparr>fromstring := \<lambda>body. Some complete_reply\<rparr> =
       sample_world complete_reply (Some created_response)"
    by (simp_all add: sample_world_def)
  note inst = row_without_values_skipped [OF none]
  have "rows_loop ''T'' sample_columns
          ([row_of [''ann'', ''Ready'']] @ Element ''rows'' None [] # [row_of [''cy'', ''On Call'']]) [] =
        rows_loop ''T'' sample_columns ([row_of [''ann'', ''Ready'']] @ [row_of [''cy'', ''On Call'']]) []"
    using inst [of "''T''" sample_columns "[row_of [''ann'', ''Ready'']]" "[row_of [''cy'', ''On Call'']]" "[]"]
    by blast
  moreover have "main ?w = main (sample_world complete_reply (Some created_response))"
    using inst [of "''T''" sample_columns _ _ "[]" sample_reply complete_reply ?w] shape
    by (simp only: worlds)
  moreover have "stdout (main ?w) = print (''OK: 2 agents written | 0.42s'')"
    by (simp add: main_def Let_def sample_defs transformer_defs printing_defs)
  ultimately show ?thesis
    using none by simp
qed

text \<open>
  C10: pairing stops at the header's length: a row with more values than the header has
  names gives the same pairs, and the same record, as the row cut to the header's length.
\<close>

theorem extra_values_discarded:
  "zip columns vs = zip columns (take (length columns) vs)
   \<and> length (zip columns vs) \<le> length columns
   \<and> agent_record ts columns vs = agent_record ts columns (take (length columns) vs)
   \<and> (row_values row_node = Some vs \<and> row_values short_node = Some (take (length columns) vs) \<longrightarrow>
        row_record ts columns row_node = row_record ts columns short_node
        \<and> rows_loop ts columns (earlier @ row_node # later) rows =
           rows_loop ts columns (earlier @ short_node # later) rows)"
proof (intro conjI impI)
  show "zip columns vs = zip columns (take (length columns) vs)"
    by (simp add: zip_take_columns)
  show "length (zip columns vs) \<le> length columns"
    by simp
  show agent: "agent_record ts columns vs = agent_record ts columns (take (length columns) vs)"
    by (simp add: agent_record_def zip_take_columns)
  assume "row_values row_node = Some vs \<and> row_values short_node = Some (take (length columns) vs)"
  with agent show same: "row_record ts columns row_node = row_record ts columns short_node"
    by (simp add: row_record_def)
  then show "rows_loop ts columns (earlier @ row_node # later) rows =
             rows_loop ts columns (earlier @ short_node # later) rows"
    by (rule rows_loop_same_record)
qed

theorem extra_values_discarded_witness:
  "row_values (row_of [''ann'', ''Ready'', ''Ann Lee'', ''extra'', ''more'']) =
     Some [''ann'', ''Ready'', ''Ann Lee'', ''extra'', ''more'']
   \<and> row_values (row_of [''ann'', ''Ready'', ''Ann Lee'']) =
     Some (take (length sample_columns) [''ann'', ''Ready'', ''Ann Lee'', ''extra'', ''more''])
   \<and> row_record ''T'' sample_columns (row_of [''ann'', ''Ready'', ''Ann Lee'', ''extra'', ''more'']) =
       row_record ''T'' sample_columns (row_of [''ann'', ''Ready'', ''Ann Lee''])
   \<and> row_record ''T'' sample_columns (row_of [''ann'', ''Ready'', ''Ann Lee'']) =
       Some (snapshot_record ''T''
               [''Username'' \<mapsto> ''ann'', ''State'' \<mapsto> ''Ready'', ''Full Name'' \<mapsto> ''Ann Lee''])"
proof -
  let ?long = "[''ann'', ''Ready'', ''Ann Lee'', ''extra'', ''more'']"
  have long: "row_values (row_of ?long) = Some ?long"
    by (simp add: sample_defs transformer_defs)
  have short: "row_values (row_of [''ann'', ''Ready'', ''Ann Lee'']) =
                 Some (take (length sample_columns) ?long)"
    by (simp add: sample_defs transformer_defs)
  have "row_record ''T'' sample_columns (row_of ?long) =
        row_record ''T'' sample_columns (row_of [''ann'', ''Ready'', ''Ann Lee''])"
    using extra_values_discarded
            [of sample_columns ?long "''T''" "row_of ?long" "row_of [''ann'', ''Ready'', ''Ann Lee'']"]
          long short
    by blast
  moreover have "row_record ''T'' sample_columns (row_of [''ann'', ''Ready'', ''Ann Lee'']) =
       Some (snapshot_record ''T''
               [''Username'' \<mapsto> ''ann'', ''State'' \<mapsto> ''Ready'', ''Full Name'' \<mapsto> ''Ann Lee''])"
    by (simp add: sample_defs transformer_defs)
  ultimately show ?thesis
    using long short by simp
qed

end
